theory Spec2Isabelle
  imports Main "HOL-Library.Sublist"
begin

section \<open>Values and the data model\<close>

text \<open>
  The values that cross the network or are thrown are JavaScript values; the
  fragment the adapter builds and reads is JSON-like. An object literal is the
  list of its properties in the order the source writes them.
\<close>

datatype json =
    JUndefined
  | JNull
  | JBool bool
  | JNum int
  | JStr string
  | JArr "json list"
  | JObj "(string \<times> json) list"

text \<open>
  The request descriptor handed to \<^verbatim>\<open>apiFetch\<close>: \<open>path\<close> is a string, \<open>method\<close>,
  \<open>data\<close> and \<open>headers\<close> are whatever value the caller stored (an omitted property
  reads as \<open>JUndefined\<close>), \<open>batchAs\<close> is an optional string tag.
\<close>

record request =
  path :: string
  "method" :: json
  data :: json
  headers :: json
  batchAs :: "string option"

text \<open>
  The control descriptor \<^verbatim>\<open>{ type, request }\<close> as the dispatcher receives it: the
  control destructures \<open>request\<close> from it.
\<close>

record 'r effect =
  type :: string
  request :: 'r

text \<open>
  The transaction handle of the batch-processing store; only its \<open>state\<close> is read.
  The set of states is the store's own, hence a type parameter.
\<close>

record 's transaction =
  state :: 's

text \<open>
  The response of the batch endpoint: \<^verbatim>\<open>{ failed, responses: [ { body, status, headers } ] }\<close>.
  The adapter reads \<open>failed\<close>, \<open>responses\<close> and each item's \<open>body\<close>.
\<close>

record response_item =
  body :: json
  status :: int
  response_headers :: json

record batch_response =
  failed :: bool
  responses :: "response_item list"

text \<open>How a promise settles: with a value, or with the thrown value.\<close>

datatype settled = Resolved json | Rejected json

text \<open>
  \<^verbatim>\<open>triggerFetch\<close> is the network primitive of \<^verbatim>\<open>@wordpress/api-fetch\<close>: for the
  batch call it either rejects with an error value (\<open>Inl\<close>) or resolves with the
  endpoint's response (\<open>Inr\<close>). It is a parameter of the model.
\<close>

type_synonym network = "request \<Rightarrow> json + batch_response"

text \<open>
  What the adapter does to the outside world, in order: a direct call of
  \<^verbatim>\<open>triggerFetch\<close>, or an action dispatched on a store of a registry
  (\<^verbatim>\<open>registry.dispatch( store ).action( ... )\<close>). The only function ever passed to
  \<^verbatim>\<open>registerProcessor\<close> is \<^verbatim>\<open>batchProcessor\<close>.
\<close>

datatype processor = BatchProcessor

datatype registry_action =
    registerProcessor string processor
  | enqueueItemAndAutocommit string string request

datatype 'g event =
    TriggerFetch request
  | RegistryDispatch 'g string registry_action

section \<open>The effect constructor\<close>

text \<open>
  \<^verbatim>\<open>apiFetch\<close> builds an object around the value it is given, so what it does
  to objects is modelled on a store. A JavaScript value is a primitive or a
  reference to an object of the store; an object is the list of its properties;
  the store holds the objects allocated so far, an object's address being its
  position. Evaluating an object literal allocates one object at the next
  address.
\<close>

datatype jsval =
    VUndefined
  | VNull
  | VBool bool
  | VNum int
  | VStr string
  | VRef nat

type_synonym obj = "(string \<times> jsval) list"

type_synonym store = "obj list"

definition deref :: "store \<Rightarrow> nat \<Rightarrow> obj option" where
  "deref h a = (if a < length h then Some (h ! a) else None)"

definition alloc :: "obj \<Rightarrow> store \<Rightarrow> jsval \<times> store" where
  "alloc ob h = (VRef (length h), h @ [ob])"

text \<open>
  \<^verbatim>\<open>return { type: 'API_FETCH', request };\<close> The argument is stored as the value
  it is: for an object, the reference that was passed.
\<close>

definition apiFetch :: "jsval \<Rightarrow> store \<Rightarrow> jsval \<times> store" where
  "apiFetch r h = alloc [(''type'', VStr ''API_FETCH''), (''request'', r)] h"

section \<open>JavaScript primitives used by the dispatcher\<close>

text \<open>\<^verbatim>\<open>Array.prototype.includes\<close>: a left-to-right search for an equal element.\<close>

primrec array_includes :: "'a list \<Rightarrow> 'a \<Rightarrow> bool" where
  "array_includes [] x = False"
| "array_includes (y # ys) x = (y = x \<or> array_includes ys x)"

text \<open>
  \<^verbatim>\<open>String.prototype.indexOf\<close>: the first position at which the search string
  starts, or \<open>-1\<close>. \<open>indexOfFrom i s pat\<close> scans the suffix \<open>s\<close> that starts at
  position \<open>i\<close> of the whole string.
\<close>

primrec indexOfFrom :: "nat \<Rightarrow> string \<Rightarrow> string \<Rightarrow> int" where
  "indexOfFrom i [] pat = (if pat = [] then int i else - 1)"
| "indexOfFrom i (c # cs) pat =
     (if prefix pat (c # cs) then int i else indexOfFrom (Suc i) cs pat)"

definition indexOf :: "string \<Rightarrow> string \<Rightarrow> int" where
  "indexOf s pat = indexOfFrom 0 s pat"

text \<open>Truthiness of an optional string: absent and the empty string are falsy.\<close>

definition truthy :: "string option \<Rightarrow> bool" where
  "truthy v = (case v of None \<Rightarrow> False | Some s \<Rightarrow> s \<noteq> [])"

section \<open>The registration guard\<close>

text \<open>\<^verbatim>\<open>const registered = false;\<close> is a module constant; nothing assigns it.\<close>

definition registered :: bool where
  "registered = False"

definition registerBatchProcessor :: "'g \<Rightarrow> 'g event list \<Rightarrow> 'g event list" where
  "registerBatchProcessor registry w =
     (if registered then w
      else w @ [RegistryDispatch registry ''core/batch-processing''
                  (registerProcessor ''API_FETCH'' BatchProcessor)])"

text \<open>The number of \<^verbatim>\<open>registerProcessor\<close> calls in a trace.\<close>

fun is_registration :: "'g event \<Rightarrow> bool" where
  "is_registration (RegistryDispatch g s (registerProcessor t p)) = True"
| "is_registration e = False"

definition registrations :: "'g event list \<Rightarrow> nat" where
  "registrations w = length (filter is_registration w)"

section \<open>The dispatcher\<close>

definition endpointSupportsBatch :: "string \<Rightarrow> bool" where
  "endpointSupportsBatch p = (indexOf p ''/v2/template-parts'' \<noteq> - 1)"

definition API_FETCH :: "'g \<Rightarrow> request effect \<Rightarrow> 'g event list \<Rightarrow> 'g event list" where
  "API_FETCH registry action w =
     (if \<not> array_includes [JStr ''POST'', JStr ''PUT'', JStr ''PATCH'', JStr ''DELETE'']
              (method (request action))
         \<or> \<not> truthy (batchAs (request action))
         \<or> \<not> endpointSupportsBatch (path (request action))
      then w @ [TriggerFetch (request action)]
      else registerBatchProcessor registry w
           @ [RegistryDispatch registry ''core/batch-processing''
                (enqueueItemAndAutocommit ''API_FETCH'' ''abc'' (request action))])"

section \<open>The batch processor\<close>

text \<open>The projection of a request descriptor into the wire shape of a sub-request.\<close>

definition wire_request :: "request \<Rightarrow> json" where
  "wire_request options =
     JObj [(''path'', JStr (path options)),
           (''body'', data options),
           (''method'', method options),
           (''headers'', headers options)]"

text \<open>The argument of the one combined \<^verbatim>\<open>triggerFetch\<close> call.\<close>

definition batch_call :: "request list \<Rightarrow> request" where
  "batch_call requests =
     \<lparr> path = ''/__experimental/batch'',
       method = JStr ''POST'',
       data = JObj [(''validation'', JStr ''require-all-validate''),
                    (''requests'', JArr (map wire_request requests))],
       headers = JUndefined,
       batchAs = None \<rparr>"

text \<open>
  A run of the processor: the \<^verbatim>\<open>triggerFetch\<close> calls it made, in order, and how
  the promise it returns settles. \<open>TRANSACTION_ERROR\<close> is the constant imported
  from \<^verbatim>\<open>@wordpress/batch-processing\<close>.
\<close>

record run =
  calls :: "request list"
  outcome :: settled

definition batchProcessor ::
  "'s \<Rightarrow> network \<Rightarrow> request list \<Rightarrow> 's transaction \<Rightarrow> run" where
  "batchProcessor TRANSACTION_ERROR triggerFetch requests transaction =
     (if state transaction = TRANSACTION_ERROR
      then \<lparr> calls = [],
             outcome = Rejected (JObj [(''code'', JStr ''transaction_failed''),
                                       (''data'', JObj [(''status'', JNum 500)]),
                                       (''message'', JStr ''Transaction failed.'')]) \<rparr>
      else (case triggerFetch (batch_call requests) of
              Inl err \<Rightarrow> \<lparr> calls = [batch_call requests], outcome = Rejected err \<rparr>
            | Inr response \<Rightarrow>
                if failed response
                then \<lparr> calls = [batch_call requests],
                       outcome = Rejected (JArr (map body (responses response))) \<rparr>
                else \<lparr> calls = [batch_call requests],
                       outcome = Resolved (JArr (map body (responses response))) \<rparr>))"

section \<open>Reading results\<close>

text \<open>
  A property read \<^verbatim>\<open>v.k\<close>: the value of the last property of that name in an
  object, \<open>JUndefined\<close> when there is none or \<open>v\<close> is not an object.
\<close>

definition property :: "string \<Rightarrow> json \<Rightarrow> json" where
  "property k v =
     (case v of
        JObj kvs \<Rightarrow> (case map_of (rev kvs) k of Some x \<Rightarrow> x | None \<Rightarrow> JUndefined)
      | _ \<Rightarrow> JUndefined)"

text \<open>
  The way back from the wire shape, as the specification's round trip words it:
  the descriptor whose \<open>path\<close>, \<open>method\<close> and \<open>headers\<close> are the sub-request's and
  whose \<open>data\<close> is its \<open>body\<close>. The wire shape has no \<open>batchAs\<close>. This function is
  not part of the source; it only states the round trip.
\<close>

definition descriptor_of_wire :: "json \<Rightarrow> request option" where
  "descriptor_of_wire v =
     (case property ''path'' v of
        JStr p \<Rightarrow> Some \<lparr> path = p,
                         method = property ''method'' v,
                         data = property ''body'' v,
                         headers = property ''headers'' v,
                         batchAs = None \<rparr>
      | _ \<Rightarrow> None)"

text \<open>The value a settled promise carries, and the length of an array value.\<close>

fun payload :: "settled \<Rightarrow> json" where
  "payload (Resolved v) = v"
| "payload (Rejected v) = v"

fun array_length :: "json \<Rightarrow> nat option" where
  "array_length (JArr xs) = Some (length xs)"
| "array_length v = None"

section \<open>Sample inputs\<close>

text \<open>Concrete requests, response items and networks at which the theorems are instantiated.\<close>

definition sample_request :: "string \<Rightarrow> json \<Rightarrow> request" where
  "sample_request p d =
     \<lparr> path = p, method = JStr ''PUT'', data = d, headers = JObj [],
       batchAs = Some ''template-parts'' \<rparr>"

definition sample_item :: "json \<Rightarrow> response_item" where
  "sample_item b = \<lparr> body = b, status = 200, response_headers = JObj [] \<rparr>"

definition sample_network :: "bool \<Rightarrow> json list \<Rightarrow> network" where
  "sample_network f bs = (\<lambda>call. Inr \<lparr> failed = f, responses = map sample_item bs \<rparr>)"

section \<open>Properties\<close>

subsection \<open>Auxiliary facts\<close>

lemma indexOfFrom_found: "indexOfFrom i s pat \<noteq> - 1 \<longleftrightarrow> sublist pat s"
  by (induction s arbitrary: i) (auto simp: sublist_Cons_right)

lemma endpointSupportsBatch_iff:
  "endpointSupportsBatch p \<longleftrightarrow> sublist ''/v2/template-parts'' p"
  by (simp add: endpointSupportsBatch_def indexOf_def indexOfFrom_found)

lemma array_includes_iff: "array_includes xs x \<longleftrightarrow> x \<in> set xs"
  by (induction xs) auto

lemma truthy_iff: "truthy v \<longleftrightarrow> (\<exists>tag. v = Some tag \<and> tag \<noteq> [])"
  by (cases v) (simp_all add: truthy_def)

lemma registerBatchProcessor_appends:
  "registerBatchProcessor registry w =
     w @ [RegistryDispatch registry ''core/batch-processing''
            (registerProcessor ''API_FETCH'' BatchProcessor)]"
  by (simp add: registerBatchProcessor_def registered_def)

lemma registrations_funpow:
  "registrations ((registerBatchProcessor registry ^^ n) w) = registrations w + n"
  by (induction n) (simp_all add: registerBatchProcessor_appends registrations_def)

lemma calls_batchProcessor:
  "state transaction \<noteq> TRANSACTION_ERROR \<Longrightarrow>
   calls (batchProcessor TRANSACTION_ERROR triggerFetch requests transaction)
     = [batch_call requests]"
  by (simp add: batchProcessor_def split: sum.split)

lemma outcome_batchProcessor:
  "state transaction \<noteq> TRANSACTION_ERROR \<Longrightarrow>
   triggerFetch (batch_call requests) = Inr response \<Longrightarrow>
   outcome (batchProcessor TRANSACTION_ERROR triggerFetch requests transaction) =
     (if failed response then Rejected (JArr (map body (responses response)))
      else Resolved (JArr (map body (responses response))))"
  by (simp add: batchProcessor_def)

subsection \<open>The registration guard\<close>

text \<open>
  C1. The claim is that N > 1 calls of \<^verbatim>\<open>registerBatchProcessor\<close> make exactly one
  \<^verbatim>\<open>registerProcessor\<close> call. The guard reads the module constant
  \<open>registered\<close>, which is \<open>False\<close> and is never assigned, so the early return is
  never taken: two calls on the same registry, starting from an empty trace,
  make two \<^verbatim>\<open>registerProcessor\<close> calls (and n calls make n, by
  \<open>registrations_funpow\<close>).
\<close>

theorem registerBatchProcessor_twice:
  "registrations (registerBatchProcessor registry (registerBatchProcessor registry [])) = 2"
  by (simp add: registerBatchProcessor_def registered_def registrations_def)

subsection \<open>The dispatcher\<close>

text \<open>
  C2. A request is routed into batching exactly when its method is one of POST,
  PUT, PATCH, DELETE, its \<open>batchAs\<close> is present and not empty, and its path
  contains \<^verbatim>\<open>/v2/template-parts\<close>. Then the dispatcher registers the processor
  and calls \<^verbatim>\<open>enqueueItemAndAutocommit( 'API_FETCH', 'abc', request )\<close> on the
  registry's \<^verbatim>\<open>core/batch-processing\<close> store, and does not fetch. Otherwise its
  only effect is one direct \<^verbatim>\<open>triggerFetch( request )\<close>: no action is dispatched
  on the registry.
\<close>

theorem API_FETCH_routing:
  "API_FETCH registry action w =
     (if method (request action)
           \<in> {JStr ''POST'', JStr ''PUT'', JStr ''PATCH'', JStr ''DELETE''}
         \<and> (\<exists>tag. batchAs (request action) = Some tag \<and> tag \<noteq> [])
         \<and> sublist ''/v2/template-parts'' (path (request action))
      then w @ [RegistryDispatch registry ''core/batch-processing''
                  (registerProcessor ''API_FETCH'' BatchProcessor),
                RegistryDispatch registry ''core/batch-processing''
                  (enqueueItemAndAutocommit ''API_FETCH'' ''abc'' (request action))]
      else w @ [TriggerFetch (request action)])"
  unfolding API_FETCH_def endpointSupportsBatch_iff truthy_iff array_includes_iff
    registerBatchProcessor_appends
  by simp

theorem API_FETCH_routing_witness:
  "API_FETCH (0::nat) \<lparr> type = ''API_FETCH'',
       request = sample_request ''/wp/v2/template-parts/7'' (JStr ''header'') \<rparr> [] =
     [RegistryDispatch 0 ''core/batch-processing''
        (registerProcessor ''API_FETCH'' BatchProcessor),
      RegistryDispatch 0 ''core/batch-processing''
        (enqueueItemAndAutocommit ''API_FETCH'' ''abc''
           (sample_request ''/wp/v2/template-parts/7'' (JStr ''header'')))]
   \<and> API_FETCH (0::nat) \<lparr> type = ''API_FETCH'',
       request = sample_request ''/wp/v2/posts/7'' (JStr ''post'') \<rparr> [] =
     [TriggerFetch (sample_request ''/wp/v2/posts/7'' (JStr ''post''))]"
  using API_FETCH_routing [of 0 "\<lparr> type = ''API_FETCH'',
          request = sample_request ''/wp/v2/template-parts/7'' (JStr ''header'') \<rparr>" "[]"]
    API_FETCH_routing [of 0 "\<lparr> type = ''API_FETCH'',
          request = sample_request ''/wp/v2/posts/7'' (JStr ''post'') \<rparr>" "[]"]
  by (simp add: sample_request_def sublist_Cons_right prefix_code)

subsection \<open>The batch processor\<close>

text \<open>
  C3. When the transaction's state is \<open>TRANSACTION_ERROR\<close>, whatever the requests
  are, the processor rejects with
  \<^verbatim>\<open>{ code: 'transaction_failed', data: { status: 500 }, message: 'Transaction failed.' }\<close>
  and has made no \<^verbatim>\<open>triggerFetch\<close> call.
\<close>

theorem batchProcessor_transaction_error:
  "state transaction = TRANSACTION_ERROR \<Longrightarrow>
   batchProcessor TRANSACTION_ERROR triggerFetch requests transaction =
     \<lparr> calls = [],
       outcome = Rejected (JObj [(''code'', JStr ''transaction_failed''),
                                 (''data'', JObj [(''status'', JNum 500)]),
                                 (''message'', JStr ''Transaction failed.'')]) \<rparr>"
  by (simp add: batchProcessor_def)

theorem batchProcessor_transaction_error_witness:
  "state \<lparr> state = ''ERROR'' \<rparr> = ''ERROR''
   \<and> batchProcessor ''ERROR'' (sample_network False [JNum 1])
        [sample_request ''/wp/v2/template-parts/1'' (JNum 1)] \<lparr> state = ''ERROR'' \<rparr> =
     \<lparr> calls = [],
       outcome = Rejected (JObj [(''code'', JStr ''transaction_failed''),
                                 (''data'', JObj [(''status'', JNum 500)]),
                                 (''message'', JStr ''Transaction failed.'')]) \<rparr>"
  using batchProcessor_transaction_error
    [of "\<lparr> state = ''ERROR'' \<rparr>" "''ERROR''" "sample_network False [JNum 1]"
        "[sample_request ''/wp/v2/template-parts/1'' (JNum 1)]"]
  by simp

text \<open>
  C4. When the transaction is not in the error state, the processor makes exactly
  one \<^verbatim>\<open>triggerFetch\<close> call: method POST, path \<^verbatim>\<open>/__experimental/batch\<close>, and as
  data the object with \<^verbatim>\<open>validation: 'require-all-validate'\<close> and \<^verbatim>\<open>requests\<close>, the
  array of \<^verbatim>\<open>{ path, body: data, method, headers }\<close> of each request, in the order
  of the requests.
\<close>

theorem batchProcessor_combined_call:
  "state transaction \<noteq> TRANSACTION_ERROR \<Longrightarrow>
   calls (batchProcessor TRANSACTION_ERROR triggerFetch requests transaction) =
     [\<lparr> path = ''/__experimental/batch'',
        method = JStr ''POST'',
        data = JObj [(''validation'', JStr ''require-all-validate''),
                     (''requests'',
                      JArr (map (\<lambda>options. JObj [(''path'', JStr (path options)),
                                                 (''body'', data options),
                                                 (''method'', method options),
                                                 (''headers'', headers options)])
                             requests))],
        headers = JUndefined,
        batchAs = None \<rparr>]"
  by (simp add: calls_batchProcessor batch_call_def wire_request_def)

theorem batchProcessor_combined_call_witness:
  "state \<lparr> state = ''IN_PROGRESS'' \<rparr> \<noteq> ''ERROR''
   \<and> calls (batchProcessor ''ERROR'' (sample_network False [JNum 1, JNum 2])
        [sample_request ''/wp/v2/template-parts/1'' (JStr ''a''),
         sample_request ''/wp/v2/template-parts/2'' (JStr ''b'')]
        \<lparr> state = ''IN_PROGRESS'' \<rparr>) =
     [\<lparr> path = ''/__experimental/batch'',
        method = JStr ''POST'',
        data = JObj [(''validation'', JStr ''require-all-validate''),
                     (''requests'',
                      JArr [JObj [(''path'', JStr ''/wp/v2/template-parts/1''),
                                  (''body'', JStr ''a''),
                                  (''method'', JStr ''PUT''),
                                  (''headers'', JObj [])],
                            JObj [(''path'', JStr ''/wp/v2/template-parts/2''),
                                  (''body'', JStr ''b''),
                                  (''method'', JStr ''PUT''),
                                  (''headers'', JObj [])]])],
        headers = JUndefined,
        batchAs = None \<rparr>]"
  using batchProcessor_combined_call
    [of "\<lparr> state = ''IN_PROGRESS'' \<rparr>" "''ERROR''" "sample_network False [JNum 1, JNum 2]"
        "[sample_request ''/wp/v2/template-parts/1'' (JStr ''a''),
          sample_request ''/wp/v2/template-parts/2'' (JStr ''b'')]"]
  by (simp add: sample_request_def)

text \<open>
  C5. When the combined call resolves with a response whose \<open>failed\<close> is false,
  the processor resolves with the array of the bodies of the response items, one
  per item, in the order of the response.
\<close>

theorem batchProcessor_resolves_bodies:
  "state transaction \<noteq> TRANSACTION_ERROR \<Longrightarrow>
   triggerFetch (batch_call requests) = Inr response \<Longrightarrow>
   \<not> failed response \<Longrightarrow>
   outcome (batchProcessor TRANSACTION_ERROR triggerFetch requests transaction) =
     Resolved (JArr (map body (responses response)))"
  by (simp add: outcome_batchProcessor)

theorem batchProcessor_resolves_bodies_witness:
  "state \<lparr> state = ''IN_PROGRESS'' \<rparr> \<noteq> ''ERROR''
   \<and> \<not> failed \<lparr> failed = False,
                 responses = map sample_item [JStr ''x'', JStr ''y'', JStr ''z''] \<rparr>
   \<and> outcome (batchProcessor ''ERROR''
        (sample_network False [JStr ''x'', JStr ''y'', JStr ''z''])
        [sample_request ''/wp/v2/template-parts/1'' (JNum 1),
         sample_request ''/wp/v2/template-parts/2'' (JNum 2),
         sample_request ''/wp/v2/template-parts/3'' (JNum 3)]
        \<lparr> state = ''IN_PROGRESS'' \<rparr>) =
     Resolved (JArr [JStr ''x'', JStr ''y'', JStr ''z''])"
  using batchProcessor_resolves_bodies
    [of "\<lparr> state = ''IN_PROGRESS'' \<rparr>" "''ERROR''"
        "sample_network False [JStr ''x'', JStr ''y'', JStr ''z'']"
        "[sample_request ''/wp/v2/template-parts/1'' (JNum 1),
          sample_request ''/wp/v2/template-parts/2'' (JNum 2),
          sample_request ''/wp/v2/template-parts/3'' (JNum 3)]"
        "\<lparr> failed = False,
           responses = map sample_item [JStr ''x'', JStr ''y'', JStr ''z''] \<rparr>"]
  by (simp add: sample_network_def sample_item_def)

text \<open>
  C6. When the combined call resolves with a response whose \<open>failed\<close> is true, the
  processor rejects, and the value it rejects with is the array of the bodies of
  the response items, in the order of the response. The combined call is the
  only call made: nothing is retried.
\<close>

theorem batchProcessor_rejects_bodies:
  "state transaction \<noteq> TRANSACTION_ERROR \<Longrightarrow>
   triggerFetch (batch_call requests) = Inr response \<Longrightarrow>
   failed response \<Longrightarrow>
   batchProcessor TRANSACTION_ERROR triggerFetch requests transaction =
     \<lparr> calls = [batch_call requests],
       outcome = Rejected (JArr (map body (responses response))) \<rparr>"
  by (simp add: batchProcessor_def)

theorem batchProcessor_rejects_bodies_witness:
  "state \<lparr> state = ''IN_PROGRESS'' \<rparr> \<noteq> ''ERROR''
   \<and> failed \<lparr> failed = True, responses = map sample_item [JStr ''bad'', JNull] \<rparr>
   \<and> batchProcessor ''ERROR'' (sample_network True [JStr ''bad'', JNull])
        [sample_request ''/wp/v2/template-parts/1'' (JNum 1),
         sample_request ''/wp/v2/template-parts/2'' (JNum 2)]
        \<lparr> state = ''IN_PROGRESS'' \<rparr> =
     \<lparr> calls = [batch_call [sample_request ''/wp/v2/template-parts/1'' (JNum 1),
                              sample_request ''/wp/v2/template-parts/2'' (JNum 2)]],
       outcome = Rejected (JArr [JStr ''bad'', JNull]) \<rparr>"
  using batchProcessor_rejects_bodies
    [of "\<lparr> state = ''IN_PROGRESS'' \<rparr>" "''ERROR''"
        "sample_network True [JStr ''bad'', JNull]"
        "[sample_request ''/wp/v2/template-parts/1'' (JNum 1),
          sample_request ''/wp/v2/template-parts/2'' (JNum 2)]"
        "\<lparr> failed = True, responses = map sample_item [JStr ''bad'', JNull] \<rparr>"]
  by (simp add: sample_network_def sample_item_def)

text \<open>
  C7. When the response has as many items as there are requests, the value the
  processor settles with, resolved or rejected, is an array as long as the list
  of requests.
\<close>

theorem batchProcessor_payload_length:
  "state transaction \<noteq> TRANSACTION_ERROR \<Longrightarrow>
   triggerFetch (batch_call requests) = Inr response \<Longrightarrow>
   length (responses response) = length requests \<Longrightarrow>
   array_length
     (payload (outcome (batchProcessor TRANSACTION_ERROR triggerFetch requests transaction)))
     = Some (length requests)"
  by (simp add: outcome_batchProcessor)

theorem batchProcessor_payload_length_witness:
  "state \<lparr> state = ''IN_PROGRESS'' \<rparr> \<noteq> ''ERROR''
   \<and> length (responses \<lparr> failed = True, responses = map sample_item [JNull, JNum 4] \<rparr>)
       = length [sample_request ''/wp/v2/template-parts/1'' (JNum 1),
                 sample_request ''/wp/v2/template-parts/2'' (JNum 2)]
   \<and> array_length
       (payload (outcome (batchProcessor ''ERROR'' (sample_network True [JNull, JNum 4])
          [sample_request ''/wp/v2/template-parts/1'' (JNum 1),
           sample_request ''/wp/v2/template-parts/2'' (JNum 2)]
          \<lparr> state = ''IN_PROGRESS'' \<rparr>)))
       = Some 2"
  using batchProcessor_payload_length
    [of "\<lparr> state = ''IN_PROGRESS'' \<rparr>" "''ERROR''"
        "sample_network True [JNull, JNum 4]"
        "[sample_request ''/wp/v2/template-parts/1'' (JNum 1),
          sample_request ''/wp/v2/template-parts/2'' (JNum 2)]"
        "\<lparr> failed = True, responses = map sample_item [JNull, JNum 4] \<rparr>"]
  by (simp add: sample_network_def)

text \<open>
  C8. Projecting a request descriptor into the wire shape
  \<^verbatim>\<open>{ path, body: data, method, headers }\<close> and reading the descriptor back gives
  the path, the method and the data (and the headers) it had: the \<open>path\<close>,
  \<open>method\<close> and \<open>body\<close> properties of the wire object are the descriptor's path,
  method and data.
\<close>

theorem wire_request_round_trip:
  "property ''path'' (wire_request r) = JStr (path r)
   \<and> property ''method'' (wire_request r) = method r
   \<and> property ''body'' (wire_request r) = data r
   \<and> descriptor_of_wire (wire_request r) =
       Some \<lparr> path = path r, method = method r, data = data r, headers = headers r,
              batchAs = None \<rparr>"
  by (simp add: descriptor_of_wire_def wire_request_def property_def)

text \<open>
  C10. The processor does not treat the empty list of requests apart: when the
  transaction is not in the error state it still makes the combined call, with
  an empty \<^verbatim>\<open>requests\<close> array, and when that call resolves with
  \<^verbatim>\<open>{ failed: false, responses: [] }\<close> it resolves with the empty array.
\<close>

theorem batchProcessor_empty_batch:
  "state transaction \<noteq> TRANSACTION_ERROR \<Longrightarrow>
   calls (batchProcessor TRANSACTION_ERROR triggerFetch [] transaction) =
     [\<lparr> path = ''/__experimental/batch'',
        method = JStr ''POST'',
        data = JObj [(''validation'', JStr ''require-all-validate''),
                     (''requests'', JArr [])],
        headers = JUndefined,
        batchAs = None \<rparr>]
   \<and> (triggerFetch (batch_call []) = Inr \<lparr> failed = False, responses = [] \<rparr> \<longrightarrow>
        outcome (batchProcessor TRANSACTION_ERROR triggerFetch [] transaction)
          = Resolved (JArr []))"
  by (simp add: calls_batchProcessor outcome_batchProcessor batch_call_def)

theorem batchProcessor_empty_batch_witness:
  "state \<lparr> state = ''IN_PROGRESS'' \<rparr> \<noteq> ''ERROR''
   \<and> sample_network False [] (batch_call []) = Inr \<lparr> failed = False, responses = [] \<rparr>
   \<and> calls (batchProcessor ''ERROR'' (sample_network False []) []
        \<lparr> state = ''IN_PROGRESS'' \<rparr>) =
     [\<lparr> path = ''/__experimental/batch'',
        method = JStr ''POST'',
        data = JObj [(''validation'', JStr ''require-all-validate''),
                     (''requests'', JArr [])],
        headers = JUndefined,
        batchAs = None \<rparr>]
   \<and> outcome (batchProcessor ''ERROR'' (sample_network False []) []
        \<lparr> state = ''IN_PROGRESS'' \<rparr>) = Resolved (JArr [])"
  using batchProcessor_empty_batch
    [of "\<lparr> state = ''IN_PROGRESS'' \<rparr>" "''ERROR''" "sample_network False []"]
  by (simp add: sample_network_def)

subsection \<open>The effect constructor\<close>

text \<open>
  C9. For every request argument and every store, \<^verbatim>\<open>apiFetch\<close> returns a
  reference to a newly allocated object that is exactly
  \<^verbatim>\<open>{ type: 'API_FETCH', request }\<close>, where the \<open>request\<close> property is the argument
  itself: for a request object, the same reference, not a reference to a copy.
  The new object is the only one allocated, and every object that was in the
  store before the call, the request descriptor among them, is as it was.
\<close>

theorem apiFetch_descriptor:
  "apiFetch r h = (v, h') \<Longrightarrow>
     deref h (length h) = None
   \<and> v = VRef (length h)
   \<and> deref h' (length h) = Some [(''type'', VStr ''API_FETCH''), (''request'', r)]
   \<and> length h' = Suc (length h)
   \<and> (\<forall>a < length h. deref h' a = deref h a)"
  by (auto simp: apiFetch_def alloc_def deref_def nth_append)

theorem apiFetch_descriptor_witness:
  "apiFetch (VRef 0) [[(''path'', VStr ''/v2/my-api/items'')]] =
     (VRef 1, [[(''path'', VStr ''/v2/my-api/items'')],
               [(''type'', VStr ''API_FETCH''), (''request'', VRef 0)]])
   \<and> deref [[(''path'', VStr ''/v2/my-api/items'')],
             [(''type'', VStr ''API_FETCH''), (''request'', VRef 0)]] 1
       = Some [(''type'', VStr ''API_FETCH''), (''request'', VRef 0)]
   \<and> deref [[(''path'', VStr ''/v2/my-api/items'')],
             [(''type'', VStr ''API_FETCH''), (''request'', VRef 0)]] 0
       = deref [[(''path'', VStr ''/v2/my-api/items'')]] 0"
proof -
  have run: "apiFetch (VRef 0) [[(''path'', VStr ''/v2/my-api/items'')]] =
     (VRef 1, [[(''path'', VStr ''/v2/my-api/items'')],
               [(''type'', VStr ''API_FETCH''), (''request'', VRef 0)]])"
    by (simp add: apiFetch_def alloc_def)
  from apiFetch_descriptor [OF run] run show ?thesis
    by simp
qed

end
